theory Spec2Isabelle
  imports Main
begin

section \<open>Texts, turns and what a script run leaves behind\<close>

text \<open>
  A Python \<open>str\<close> is a sequence of Unicode code points, and the program's literals hold
  code points far beyond one byte, so a text is modelled as the list of its code points.
  \<open>lit\<close> reads an ASCII literal of the source as such a text.

  The model covers what a script run does with the session once it exists: the chat
  display, the chat input and the run button. Configuration and the start of the session
  (lines 11 to 89) are outside it; \<open>current_code\<close> holds what the text area of line 145
  has stored when the button is pressed. Streamlit's display functions are taken by their
  effect on the page, and \<open>sys.exc_info\<close>, \<open>traceback.format_exc\<close> and \<open>str\<close> by what
  they return for the exception at hand, which is given with the exception.
\<close>

type_synonym pystr = "nat list"

definition lit :: "string \<Rightarrow> pystr" where
  "lit s = map of_char s"

text \<open>
  One entry of \<open>st.session_state.messages\<close>: the dict \<open>{'role': ..., 'content': ...}\<close>.
  Two such dicts are equal in Python exactly when both values are equal, which is the
  equality of the record.
\<close>

record turn =
  role :: pystr
  content :: pystr

text \<open>
  An exception object as far as the program looks at it: whether it is an instance of
  \<open>Exception\<close> (what \<open>except Exception\<close> tests); \<open>type(e).__name__\<close>; what \<open>str(e)\<close> does,
  which runs the \<open>__str__\<close> of the exception's class and so returns a text (\<open>Inr\<close>) or
  raises in its turn (\<open>Inl\<close>); and the text that the call \<open>traceback.format_exc()\<close>
  returns while the exception is being handled.
\<close>

datatype py_exception =
  Py_exception
    (exc_is_exception: bool)
    (exc_type_name: pystr)
    (exc_str: "py_exception + pystr")
    (exc_trace: pystr)

text \<open>
  What Streamlit has put on the page during the current script run, in order.
\<close>

datatype ui =
    Chat_message pystr pystr
  | Error_box pystr
  | Info_box pystr
  | Code_box pystr
  | Subheader pystr

text \<open>
  How a piece of the script ends: it falls through to the next statement, it calls
  \<open>st.rerun()\<close>, an exception of the submitted code or of the remote service leaves it
  uncaught, an error of the host's own statements (named by its type) leaves it, or it
  never comes back.
\<close>

datatype control =
    Continue
  | Rerun
  | Uncaught py_exception
  | Crashed pystr
  | Blocked

section \<open>Chat display (lines 98 to 122)\<close>

text \<open>
  The loop over \<open>reversed(st.session_state.messages)\<close>; the two accumulators are the
  loop's variables, \<open>None\<close> until a turn is stored. Every stored dict is non-empty and so
  true in the test before \<open>break\<close>.
\<close>

fun scan :: "turn list \<Rightarrow> turn option \<Rightarrow> turn option \<Rightarrow> turn option \<times> turn option" where
  "scan [] last_assistant_msg last_user_msg = (last_assistant_msg, last_user_msg)"
| "scan (msg # rest) last_assistant_msg last_user_msg =
     (case (if role msg = lit ''assistant'' \<and> last_assistant_msg = None
              then (Some msg, last_user_msg)
            else if role msg = lit ''user'' \<and> last_user_msg = None
              then (last_assistant_msg, Some msg)
            else (last_assistant_msg, last_user_msg)) of
        (a, u) \<Rightarrow> if a \<noteq> None \<and> u \<noteq> None then (a, u) else scan rest a u)"

definition select :: "turn list \<Rightarrow> turn option \<times> turn option" where
  "select msgs = scan (rev msgs) None None"

text \<open>
  \<open>list.index(x)\<close>: the position of the first element equal to \<open>x\<close>; \<open>None\<close> stands for
  the ValueError of a list without such an element.
\<close>

fun list_index :: "'a list \<Rightarrow> 'a \<Rightarrow> nat option" where
  "list_index [] x = None"
| "list_index (y # ys) x = (if y = x then Some 0 else map_option Suc (list_index ys x))"

text \<open>
  The two \<open>if\<close> statements that render: the assistant turn first, then the user turn
  under the test of line 118.
\<close>

definition chat_display :: "turn list \<Rightarrow> ui list \<times> control" where
  "chat_display msgs =
     (case select msgs of (last_assistant_msg, last_user_msg) \<Rightarrow>
        (let shown = (case last_assistant_msg of
                        None \<Rightarrow> []
                      | Some a \<Rightarrow> [Chat_message (lit ''assistant'') (content a)])
         in case last_user_msg of
              None \<Rightarrow> (shown, Continue)
            | Some u \<Rightarrow>
               (case last_assistant_msg of
                  None \<Rightarrow> (shown @ [Chat_message (lit ''user'') (content u)], Continue)
                | Some a \<Rightarrow>
                   (case list_index msgs u of
                      None \<Rightarrow> (shown, Crashed (lit ''ValueError''))
                    | Some i \<Rightarrow>
                       (case list_index msgs a of
                          None \<Rightarrow> (shown, Crashed (lit ''ValueError''))
                        | Some j \<Rightarrow>
                           if i > j
                             then (shown @ [Chat_message (lit ''user'') (content u)], Continue)
                           else (shown, Continue))))))"

text \<open>
  The host process: the three entries of \<open>st.session_state\<close>, the page built so far, and
  \<open>host\<close>, whatever else of the process can be reached from Python code running in it
  (modules, builtins, files). The chat handle is opaque; the remote service is given by
  what \<open>send_message\<close> followed by \<open>response.text\<close> does with a handle and a prompt: it
  raises (\<open>Inl\<close>) or yields the reply text (\<open>Inr\<close>), and leaves the handle in a new state.
  The call is taken to come back.
\<close>

record ('c, 'h) app =
  chat :: 'c
  messages :: "turn list"
  current_code :: pystr
  page :: "ui list"
  host :: 'h

type_synonym 'c remote = "'c \<Rightarrow> pystr \<Rightarrow> (py_exception + pystr) \<times> 'c"

definition chat_display_step :: "('c, 'h) app \<Rightarrow> ('c, 'h) app \<times> control" where
  "chat_display_step st =
     (case chat_display (messages st) of
        (shown, c) \<Rightarrow> (st\<lparr>page := page st @ shown\<rparr>, c))"

section \<open>Chat input (lines 125 to 138)\<close>

text \<open>
  The \<open>try\<close> statement of the handler. \<open>st.rerun()\<close> leaves it by an exception that is
  not an \<open>Exception\<close>, so the handler of line 137 never sees it. The f-string of line
  138 calls \<open>str(e)\<close> inside the \<open>except\<close> clause; what that raises is caught by nothing.
\<close>

definition chat_input_send :: "'c remote \<Rightarrow> pystr \<Rightarrow> ('c, 'h) app \<Rightarrow> ('c, 'h) app \<times> control" where
  "chat_input_send send_message prompt st =
     (case send_message (chat st) prompt of
        (Inr response_text, c) \<Rightarrow>
          (st\<lparr>chat := c,
              messages := messages st @ [\<lparr>role = lit ''assistant'', content = response_text\<rparr>]\<rparr>,
           Rerun)
      | (Inl e, c) \<Rightarrow>
          if exc_is_exception e
            then (case exc_str e of
                    Inr message \<Rightarrow>
                      (st\<lparr>chat := c,
                          page := page st @
                            [Error_box ([128680] @ lit '' Error communicating with AI: '' @ message)]\<rparr>,
                       Continue)
                  | Inl e' \<Rightarrow> (st\<lparr>chat := c\<rparr>, Uncaught e'))
          else (st\<lparr>chat := c\<rparr>, Uncaught e))"

text \<open>
  \<open>st.chat_input\<close> gives \<open>None\<close> when nothing was submitted; the walrus test also skips the
  empty text.
\<close>

definition chat_input_handler :: "'c remote \<Rightarrow> pystr option \<Rightarrow> ('c, 'h) app \<Rightarrow> ('c, 'h) app \<times> control" where
  "chat_input_handler send_message submitted st =
     (case submitted of
        None \<Rightarrow> (st, Continue)
      | Some prompt \<Rightarrow>
          if prompt = [] then (st, Continue)
          else chat_input_send send_message prompt
                 (st\<lparr>messages := messages st @ [\<lparr>role = lit ''user'', content = prompt\<rparr>]\<rparr>))"

section \<open>Running the code (lines 152 to 224)\<close>

text \<open>
  \<open>str.strip()\<close> without argument removes the code points for which \<open>str.isspace\<close>
  holds from both ends.
\<close>

definition isspace :: "nat \<Rightarrow> bool" where
  "isspace c =
     ((9 \<le> c \<and> c \<le> 13) \<or> (28 \<le> c \<and> c \<le> 32) \<or> c = 133 \<or> c = 160 \<or> c = 5760 \<or>
      (8192 \<le> c \<and> c \<le> 8202) \<or> c = 8232 \<or> c = 8233 \<or> c = 8239 \<or> c = 8287 \<or> c = 12288)"

definition strip :: "pystr \<Rightarrow> pystr" where
  "strip s = rev (dropWhile isspace (rev (dropWhile isspace s)))"

text \<open>
  The interpreter behind \<open>exec(user_code, globals)\<close> on line 173. It is given the source
  text and the namespace handed to it, and it runs inside the host process with the
  host's privileges: it may read and change the session, the page and the rest of the
  process, so it takes the host as it is and returns it as the run leaves it. The run
  ends without raising, or raises, or never ends.

  \<^item> \<open>Completed\<close>: the sum is what \<open>output_capture.getvalue()\<close> on line 174 then does. It
    returns the text the capturing stream holds, which is what was written to the
    redirected \<open>sys.stdout\<close> (\<open>Inr\<close>), or it raises (\<open>Inl\<close>), as it does with a ValueError
    when the submitted code has closed that stream.
  \<^item> \<open>Raised\<close>: the text is what had been written to the stream until then.
\<close>

datatype exec_outcome =
    Completed "py_exception + pystr"
  | Raised pystr py_exception
  | Diverged

type_synonym ('c, 'h, 'v) interpreter =
  "pystr \<Rightarrow> (pystr \<rightharpoonup> 'v) \<Rightarrow> ('c, 'h) app \<Rightarrow> exec_outcome \<times> ('c, 'h) app"

text \<open>
  The local variables that lines 165 to 182 leave behind; \<open>error_short\<close> is bound in the
  \<open>except\<close> branch only.
\<close>

record run_locals =
  execution_result :: pystr
  error_occurred :: bool
  error_details :: pystr
  result_display_content :: pystr
  error_short :: "pystr option"

datatype run_outcome =
    Result run_locals
  | Escaped py_exception
  | Hung

text \<open>
  Lines 177 to 182, for an exception raised anywhere inside the \<open>try\<close>. The clause takes
  instances of \<open>Exception\<close> only. Its f-string calls \<open>str(exc_value)\<close>; what that raises
  leaves the clause, and the run, with no result.
\<close>

definition except_clause :: "py_exception \<Rightarrow> run_outcome" where
  "except_clause e =
     (if exc_is_exception e
        then (case exc_str e of
                Inr message \<Rightarrow>
                  (let short = exc_type_name e @ lit '': '' @ message
                   in Result \<lparr>execution_result = [],
                              error_occurred = True,
                              error_details = exc_trace e,
                              result_display_content = [128165] @ lit '' '' @ short,
                              error_short = Some short\<rparr>)
              | Inl e' \<Rightarrow> Escaped e')
      else Escaped e)"

text \<open>Lines 164 to 182. The namespace is the \<open>{}\<close> of line 173.\<close>

definition run_code ::
    "('c, 'h, 'v) interpreter \<Rightarrow> pystr \<Rightarrow> ('c, 'h) app \<Rightarrow> run_outcome \<times> ('c, 'h) app" where
  "run_code exec user_code st =
     (case exec user_code Map.empty st of
        (Completed (Inr output_capture), st') \<Rightarrow>
          (let stripped = strip output_capture
           in (Result \<lparr>execution_result = stripped,
                       error_occurred = False,
                       error_details = [],
                       result_display_content =
                         (if stripped \<noteq> [] then stripped
                          else [9989] @ lit '' Code ran successfully (No output)''),
                       error_short = None\<rparr>,
               st'))
      | (Completed (Inl e), st') \<Rightarrow> (except_clause e, st')
      | (Raised output_capture e, st') \<Rightarrow> (except_clause e, st')
      | (Diverged, st') \<Rightarrow> (Hung, st'))"

text \<open>
  \<open>st.session_state.messages[-1]["content"] += s\<close>; \<open>None\<close> stands for the IndexError
  of an empty list.
\<close>

definition extend_last_content :: "pystr \<Rightarrow> turn list \<Rightarrow> turn list option" where
  "extend_last_content s msgs =
     (if msgs = [] then None
      else Some (msgs[length msgs - 1 :=
                   (msgs ! (length msgs - 1))\<lparr>content := content (msgs ! (length msgs - 1)) @ s\<rparr>]))"

definition ai_prompt :: "run_locals \<Rightarrow> pystr" where
  "ai_prompt r =
     lit ''The user ran the code shown in their last message. The result/output was:\<newline>'' @
     lit ''```text\<newline>'' @ result_display_content r @ lit ''```\<newline>\<newline>'' @
     lit ''(Full error trace if any: '' @ error_details r @ lit '')\<newline>\<newline>'' @
     lit ''Please evaluate this based on the conversation context/last task. '' @
     lit ''Provide feedback according to the teaching style: praise success and suggest the next logical small step, OR if there was an error, explain the error message/concept and guide towards the fix.''"

text \<open>
  Lines 199 to 224: \<open>truthy\<close> is the truth value Python gives the chat handle. The
  f-string of line 222 calls \<open>str(e)\<close> first, then \<open>traceback.format_exc()\<close>.
\<close>

definition run_button_send ::
    "'c remote \<Rightarrow> ('c \<Rightarrow> bool) \<Rightarrow> run_locals \<Rightarrow> ('c, 'h) app \<Rightarrow> ('c, 'h) app \<times> control" where
  "run_button_send send_message truthy r st =
     (if truthy (chat st) then
        (case send_message (chat st) (ai_prompt r) of
           (Inr response_text, c) \<Rightarrow>
             (st\<lparr>chat := c,
                 messages := messages st @ [\<lparr>role = lit ''assistant'', content = response_text\<rparr>]\<rparr>,
              Rerun)
         | (Inl e, c) \<Rightarrow>
             if exc_is_exception e
               then (case exc_str e of
                       Inr message \<Rightarrow>
                         (st\<lparr>chat := c,
                             page := page st @
                               [Error_box ([128680] @ lit '' Error communicating with AI: '' @
                                           message @ lit ''\<newline>'' @ exc_trace e)]\<rparr>,
                          Continue)
                     | Inl e' \<Rightarrow> (st\<lparr>chat := c\<rparr>, Uncaught e'))
             else (st\<lparr>chat := c\<rparr>, Uncaught e))
      else (st\<lparr>page := page st @ [Error_box (lit ''Chat session not initialized.'')]\<rparr>, Continue))"

text \<open>
  Lines 154 to 161: the notice, and the user turn with the code block, appended before the
  code is run.
\<close>

definition submit_code :: "('c, 'h) app \<Rightarrow> ('c, 'h) app" where
  "submit_code st =
     st\<lparr>page := page st @ [Info_box (lit ''Running code...'')],
        messages := messages st @
          [\<lparr>role = lit ''user'',
            content = lit ''```python\<newline>'' @ current_code st @ lit ''\<newline>```''\<rparr>]\<rparr>"

text \<open>
  The whole handler. \<open>user_code\<close> is read on line 154, before the run; everything after
  line 173 works on the session as the submitted code has left it.
\<close>

definition run_button_handler ::
    "('c, 'h, 'v) interpreter \<Rightarrow> 'c remote \<Rightarrow> ('c \<Rightarrow> bool) \<Rightarrow> ('c, 'h) app
       \<Rightarrow> ('c, 'h) app \<times> control" where
  "run_button_handler exec send_message truthy st =
     (let user_code = current_code st
      in case run_code exec user_code (submit_code st) of
           (Escaped e, st') \<Rightarrow> (st', Uncaught e)
         | (Hung, st') \<Rightarrow> (st', Blocked)
         | (Result r, st') \<Rightarrow>
            (let st3 = st'\<lparr>page := page st' @
                          [Subheader (lit ''Result:''),
                           if error_occurred r then Error_box (result_display_content r)
                           else if execution_result r \<noteq> [] then Code_box (result_display_content r)
                           else Code_box (result_display_content r)]\<rparr>
             in case extend_last_content
                       (lit ''\<newline>**Result:**\<newline>```text\<newline>'' @ result_display_content r @
                        lit ''\<newline>```'')
                       (messages st3) of
                  None \<Rightarrow> (st3, Crashed (lit ''IndexError''))
                | Some msgs \<Rightarrow> run_button_send send_message truthy r (st3\<lparr>messages := msgs\<rparr>)))"

section \<open>Sequences of free-text sends\<close>

text \<open>
  The prompts are submitted one after the other, each to the chat input handler of its own
  script run; the page is kept here only as a log of what the runs showed.
\<close>

fun free_text_sends :: "'c remote \<Rightarrow> pystr list \<Rightarrow> ('c, 'h) app \<Rightarrow> ('c, 'h) app" where
  "free_text_sends send_message [] st = st"
| "free_text_sends send_message (prompt # rest) st =
     free_text_sends send_message rest (fst (chat_input_handler send_message (Some prompt) st))"

text \<open>
  What the remote service did with each of these prompts in turn: \<open>True\<close> where it
  replied, \<open>False\<close> where it raised.
\<close>

fun replied :: "'c remote \<Rightarrow> pystr list \<Rightarrow> 'c \<Rightarrow> bool list" where
  "replied send_message [] c = []"
| "replied send_message (prompt # rest) c =
     (case send_message c prompt of
        (Inr response_text, c') \<Rightarrow> True # replied send_message rest c'
      | (Inl e, c') \<Rightarrow> False # replied send_message rest c')"

text \<open>
  The turns that the specification has such a sequence add: for each prompt one user turn
  and, where the service replied, one assistant turn with the reply after it.
\<close>

fun exchanged :: "'c remote \<Rightarrow> pystr list \<Rightarrow> 'c \<Rightarrow> turn list" where
  "exchanged send_message [] c = []"
| "exchanged send_message (prompt # rest) c =
     (case send_message c prompt of
        (Inr response_text, c') \<Rightarrow>
          \<lparr>role = lit ''user'', content = prompt\<rparr> #
          \<lparr>role = lit ''assistant'', content = response_text\<rparr> #
          exchanged send_message rest c'
      | (Inl e, c') \<Rightarrow>
          \<lparr>role = lit ''user'', content = prompt\<rparr> # exchanged send_message rest c')"

section \<open>The display rule in the words of the specification\<close>

text \<open>
  The position of the most recent turn of a role, and the rule "assistant turn first, then
  the user turn if and only if its position is strictly after the assistant turn's".
\<close>

fun last_pos :: "('a \<Rightarrow> bool) \<Rightarrow> 'a list \<Rightarrow> nat option" where
  "last_pos P [] = None"
| "last_pos P (x # xs) =
     (case last_pos P xs of
        Some i \<Rightarrow> Some (Suc i)
      | None \<Rightarrow> if P x then Some 0 else None)"

definition display_rule :: "turn list \<Rightarrow> ui list" where
  "display_rule msgs =
     (case last_pos (\<lambda>m. role m = lit ''assistant'') msgs of
        None \<Rightarrow>
          (case last_pos (\<lambda>m. role m = lit ''user'') msgs of
             None \<Rightarrow> []
           | Some j \<Rightarrow> [Chat_message (lit ''user'') (content (msgs ! j))])
      | Some i \<Rightarrow>
          (case last_pos (\<lambda>m. role m = lit ''user'') msgs of
             None \<Rightarrow> [Chat_message (lit ''assistant'') (content (msgs ! i))]
           | Some j \<Rightarrow>
               if i < j
                 then [Chat_message (lit ''assistant'') (content (msgs ! i)),
                       Chat_message (lit ''user'') (content (msgs ! j))]
               else [Chat_message (lit ''assistant'') (content (msgs ! i))]))"


section \<open>Properties of the display\<close>

lemma lit_roles_differ: "lit ''user'' \<noteq> lit ''assistant''"
  by (simp add: lit_def)

text \<open>
  The loop keeps, for each role, the first turn it meets while walking backwards.
\<close>

lemma scan_find:
  "scan xs la lu =
     (case la of None \<Rightarrow> find (\<lambda>m. role m = lit ''assistant'') xs | Some a \<Rightarrow> Some a,
      case lu of None \<Rightarrow> find (\<lambda>m. role m = lit ''user'') xs | Some u \<Rightarrow> Some u)"
  using lit_roles_differ
  by (induction xs arbitrary: la lu) (auto split: option.splits)

lemma last_pos_bound: "last_pos P xs = Some i \<Longrightarrow> i < length xs"
  by (induction xs arbitrary: i) (auto split: option.splits if_splits)

lemma last_pos_snoc:
  "last_pos P (xs @ [x]) = (if P x then Some (length xs) else last_pos P xs)"
  by (induction xs) (auto split: option.splits)

lemma find_rev_last_pos: "find P (rev xs) = map_option (\<lambda>i. xs ! i) (last_pos P xs)"
proof (induction xs rule: rev_induct)
  case Nil
  show ?case by simp
next
  case (snoc x xs)
  show ?case
  proof (cases "P x")
    case True
    then show ?thesis by (simp add: last_pos_snoc)
  next
    case False
    then show ?thesis using snoc last_pos_bound [of P xs]
      by (cases "last_pos P xs") (auto simp: last_pos_snoc nth_append)
  qed
qed

text \<open>
  So \<open>select\<close> returns the most recent assistant turn and the most recent user turn of
  every transcript.
\<close>

lemma select_latest:
  "select msgs =
     (map_option (\<lambda>i. msgs ! i) (last_pos (\<lambda>m. role m = lit ''assistant'') msgs),
      map_option (\<lambda>i. msgs ! i) (last_pos (\<lambda>m. role m = lit ''user'') msgs))"
  by (simp add: select_def scan_find find_rev_last_pos)

lemma list_index_distinct:
  "distinct xs \<Longrightarrow> i < length xs \<Longrightarrow> list_index xs (xs ! i) = Some i"
proof (induction xs arbitrary: i)
  case Nil
  then show ?case by simp
next
  case (Cons x xs)
  then show ?case by (cases i) auto
qed

text \<open>
  On a transcript whose turns are pairwise different, \<open>index\<close> finds each selected turn
  at its own position, and the page follows the rule of the specification.
\<close>

lemma chat_display_distinct:
  "distinct msgs \<Longrightarrow> chat_display msgs = (display_rule msgs, Continue)"
  by (auto simp: chat_display_def display_rule_def select_latest list_index_distinct
           dest: last_pos_bound split: option.splits)

text \<open>
  The two transcripts of the specification: an assistant turn followed by a user turn
  shows both; with a second assistant turn after them only that one is shown, provided
  its text differs from the first one's. Two equal assistant texts show the user turn as
  well.
\<close>

lemma chat_display_examples:
  "chat_display [\<lparr>role = lit ''assistant'', content = a1\<rparr>, \<lparr>role = lit ''user'', content = u1\<rparr>]
     = ([Chat_message (lit ''assistant'') a1, Chat_message (lit ''user'') u1], Continue)"
  "a1 \<noteq> a2 \<Longrightarrow>
   chat_display [\<lparr>role = lit ''assistant'', content = a1\<rparr>, \<lparr>role = lit ''user'', content = u1\<rparr>,
                 \<lparr>role = lit ''assistant'', content = a2\<rparr>]
     = ([Chat_message (lit ''assistant'') a2], Continue)"
  "chat_display [\<lparr>role = lit ''assistant'', content = a\<rparr>, \<lparr>role = lit ''user'', content = u1\<rparr>,
                 \<lparr>role = lit ''assistant'', content = a\<rparr>]
     = ([Chat_message (lit ''assistant'') a, Chat_message (lit ''user'') u1], Continue)"
  using lit_roles_differ by (simp_all add: chat_display_def select_def)

text \<open>
  C1. The display is to show the most recent assistant turn and, after it, the most
  recent user turn exactly when that user turn stands later in the transcript. The
  learner types \<open>next\<close>, is answered, and types \<open>next\<close> again while the service is down:
  the transcript ends with a user turn at position 3, after the assistant turn at
  position 2. The rule shows both; the program shows the assistant turn alone, because
  \<open>index\<close> finds the equal user turn of position 1.
\<close>

theorem chat_display_repeated_prompt:
  "chat_display
     [\<lparr>role = lit ''assistant'', content = lit ''A1''\<rparr>,
      \<lparr>role = lit ''user'', content = lit ''next''\<rparr>,
      \<lparr>role = lit ''assistant'', content = lit ''A2''\<rparr>,
      \<lparr>role = lit ''user'', content = lit ''next''\<rparr>]
     = ([Chat_message (lit ''assistant'') (lit ''A2'')], Continue)
   \<and> display_rule
     [\<lparr>role = lit ''assistant'', content = lit ''A1''\<rparr>,
      \<lparr>role = lit ''user'', content = lit ''next''\<rparr>,
      \<lparr>role = lit ''assistant'', content = lit ''A2''\<rparr>,
      \<lparr>role = lit ''user'', content = lit ''next''\<rparr>]
     = [Chat_message (lit ''assistant'') (lit ''A2''), Chat_message (lit ''user'') (lit ''next'')]"
  by (simp add: chat_display_def display_rule_def select_def lit_def)

text \<open>
  The turns that \<open>select\<close> returns are in the list, so \<open>index\<close> finds them and the
  display never stops with a ValueError.
\<close>

lemma list_index_member: "x \<in> set xs \<Longrightarrow> \<exists>i. list_index xs x = Some i"
  by (induction xs) auto

lemma chat_display_continue: "snd (chat_display msgs) = Continue"
proof -
  have m: "last_pos P msgs = Some i \<Longrightarrow> \<exists>j. list_index msgs (msgs ! i) = Some j" for P i
    using last_pos_bound [of P msgs i] list_index_member [of "msgs ! i" msgs] by simp
  show ?thesis
    by (auto simp: chat_display_def select_latest Let_def split: option.splits dest: m)
qed

text \<open>
  C8. The display reads the transcript and writes the page only. Selecting again on the
  transcript it leaves behind gives the same two turns, and displaying twice in a row
  puts the same elements on the page twice.
\<close>

theorem display_twice:
  "messages (fst (chat_display_step st)) = messages st
   \<and> select (messages (fst (chat_display_step st))) = select (messages st)
   \<and> chat_display (messages (fst (chat_display_step st))) = chat_display (messages st)
   \<and> page (fst (chat_display_step (fst (chat_display_step st)))) =
       page st @ fst (chat_display (messages st)) @ fst (chat_display (messages st))"
  by (simp add: chat_display_step_def split: prod.splits)

section \<open>Properties of the code runner\<close>

text \<open>
  \<open>strip\<close> cuts white space off both ends and nothing else: what it returns neither
  starts nor ends with white space.
\<close>

lemma strip_decompose:
  "\<exists>a b. s = a @ strip s @ b \<and> list_all isspace a \<and> list_all isspace b"
proof -
  let ?t = "dropWhile isspace s"
  have 1: "s = takeWhile isspace s @ ?t" by simp
  have "rev (rev ?t) = rev (takeWhile isspace (rev ?t) @ dropWhile isspace (rev ?t))"
    by (simp only: takeWhile_dropWhile_id)
  then have 3: "?t = strip s @ rev (takeWhile isspace (rev ?t))"
    by (simp only: rev_rev_ident rev_append strip_def)
  have 4: "list_all isspace (takeWhile isspace s)"
    by (simp add: list_all_iff) (meson set_takeWhileD)
  have 5: "list_all isspace (rev (takeWhile isspace (rev ?t)))"
    by (simp add: list_all_iff) (meson set_takeWhileD)
  from 1 3 have "s = takeWhile isspace s @ strip s @ rev (takeWhile isspace (rev ?t))"
    by simp
  with 4 5 show ?thesis by blast
qed

lemma strip_ends:
  "strip s \<noteq> [] \<Longrightarrow> \<not> isspace (hd (strip s)) \<and> \<not> isspace (last (strip s))"
proof -
  assume ne: "strip s \<noteq> []"
  let ?t = "dropWhile isspace s"
  let ?u = "dropWhile isspace (rev ?t)"
  have u: "?u \<noteq> []" using ne by (simp add: strip_def)
  then have l: "\<not> isspace (hd ?u)" by (rule hd_dropWhile)
  have last_eq: "last (strip s) = hd ?u" using u by (simp add: strip_def last_rev)
  have t: "?t \<noteq> []"
  proof
    assume "?t = []"
    then have "?u = []" by (simp only: rev.simps dropWhile.simps)
    with u show False ..
  qed
  then have ht: "\<not> isspace (hd ?t)" by (rule hd_dropWhile)
  have "\<exists>a. ?t = strip s @ a"
  proof -
    have "rev (rev ?t) = rev (takeWhile isspace (rev ?t) @ ?u)"
      by (simp only: takeWhile_dropWhile_id)
    then have "?t = strip s @ rev (takeWhile isspace (rev ?t))"
      by (simp only: rev_rev_ident rev_append strip_def)
    then show ?thesis ..
  qed
  then obtain a where "?t = strip s @ a" ..
  then have "hd ?t = hd (strip s)" using ne by (metis hd_append2)
  with ht l last_eq show ?thesis by simp
qed









text \<open>
  C9. When the submitted code raises, whatever it wrote to standard output before is
  dropped: where there is a result, its captured text is empty and the text shown is built
  from the error alone, and in every case the runner and the whole handler (page,
  transcript, prompt sent to the tutor) do the same whatever had been written.
\<close>

theorem raised_output_discarded:
  assumes "exec1 (current_code st) Map.empty (submit_code st) = (Raised out1 e, st')"
      and "exec2 (current_code st) Map.empty (submit_code st) = (Raised out2 e, st')"
  shows "fst (run_code exec1 (current_code st) (submit_code st)) =
           (if exc_is_exception e
              then (case exc_str e of
                      Inr message \<Rightarrow>
                        Result \<lparr>execution_result = [], error_occurred = True,
                                 error_details = exc_trace e,
                                 result_display_content =
                                   [128165] @ lit '' '' @ exc_type_name e @ lit '': '' @ message,
                                 error_short = Some (exc_type_name e @ lit '': '' @ message)\<rparr>
                    | Inl e' \<Rightarrow> Escaped e')
            else Escaped e)
       \<and> run_code exec1 (current_code st) (submit_code st)
           = run_code exec2 (current_code st) (submit_code st)
       \<and> run_button_handler exec1 send_message truthy st
           = run_button_handler exec2 send_message truthy st"
  using assms
  by (simp add: run_code_def except_clause_def run_button_handler_def Let_def split: sum.splits)

text \<open>\<open>print(1/0)\<close>, once with output before the error and once without.\<close>

theorem raised_output_discarded_witness:
  "(\<lambda>c (ns :: pystr \<rightharpoonup> unit) s. (Raised (lit ''partial'')
        (Py_exception True (lit ''ZeroDivisionError'') (Inr (lit ''division by zero'')) (lit ''Traceback'')), s))
      (current_code \<lparr>chat = (), messages = [], current_code = lit ''print(1/0)'', page = [], host = ()\<rparr>)
      Map.empty
      (submit_code \<lparr>chat = (), messages = [], current_code = lit ''print(1/0)'', page = [], host = ()\<rparr>)
    = (Raised (lit ''partial'')
        (Py_exception True (lit ''ZeroDivisionError'') (Inr (lit ''division by zero'')) (lit ''Traceback'')),
       submit_code \<lparr>chat = (), messages = [], current_code = lit ''print(1/0)'', page = [], host = ()\<rparr>)
   \<and> run_button_handler (\<lambda>c (ns :: pystr \<rightharpoonup> unit) s. (Raised (lit ''partial'')
        (Py_exception True (lit ''ZeroDivisionError'') (Inr (lit ''division by zero'')) (lit ''Traceback'')), s))
       (\<lambda>c p. (Inr (lit ''ok''), c)) (\<lambda>c. True)
       \<lparr>chat = (), messages = [], current_code = lit ''print(1/0)'', page = [], host = ()\<rparr>
     = run_button_handler (\<lambda>c (ns :: pystr \<rightharpoonup> unit) s. (Raised []
        (Py_exception True (lit ''ZeroDivisionError'') (Inr (lit ''division by zero'')) (lit ''Traceback'')), s))
       (\<lambda>c p. (Inr (lit ''ok''), c)) (\<lambda>c. True)
       \<lparr>chat = (), messages = [], current_code = lit ''print(1/0)'', page = [], host = ()\<rparr>"
  using raised_output_discarded [of
       "\<lambda>c (ns :: pystr \<rightharpoonup> unit) s. (Raised (lit ''partial'')
        (Py_exception True (lit ''ZeroDivisionError'') (Inr (lit ''division by zero'')) (lit ''Traceback'')), s)"
       "\<lparr>chat = (), messages = [], current_code = lit ''print(1/0)'', page = [], host = ()\<rparr>"
       "lit ''partial''"
       "Py_exception True (lit ''ZeroDivisionError'') (Inr (lit ''division by zero'')) (lit ''Traceback'')"
       "submit_code \<lparr>chat = (), messages = [], current_code = lit ''print(1/0)'', page = [], host = ()\<rparr>"
       "\<lambda>c (ns :: pystr \<rightharpoonup> unit) s. (Raised []
        (Py_exception True (lit ''ZeroDivisionError'') (Inr (lit ''division by zero'')) (lit ''Traceback'')), s)"
       "[]" "\<lambda>c p. (Inr (lit ''ok''), c)" "\<lambda>c. True"]
  by auto

text \<open>
  C10. Of the errors the submitted code raises, only those of the \<open>Exception\<close> class
  become a result (those whose \<open>str\<close> returns); any other leaves the runner and the handler
  uncaught, after the user turn was appended and before any result was shown.
\<close>

theorem only_exceptions_converted:
  assumes "exec (current_code st) Map.empty (submit_code st) = (Raised out e, st')"
  shows "(\<exists>r. fst (run_code exec (current_code st) (submit_code st)) = Result r)
           = (exc_is_exception e \<and> (\<exists>message. exc_str e = Inr message))
       \<and> (if exc_is_exception e then True
          else run_code exec (current_code st) (submit_code st) = (Escaped e, st')
             \<and> run_button_handler exec send_message truthy st = (st', Uncaught e))"
  using assms
  by (auto simp: run_code_def except_clause_def run_button_handler_def Let_def split: sum.splits)

text \<open>\<open>raise SystemExit\<close>, which is no \<open>Exception\<close>.\<close>

theorem only_exceptions_converted_witness:
  "(\<lambda>c (ns :: pystr \<rightharpoonup> unit) s.
       (Raised [] (Py_exception False (lit ''SystemExit'') (Inr []) (lit ''Traceback'')), s))
      (current_code \<lparr>chat = (), messages = [], current_code = lit ''raise SystemExit'', page = [], host = ()\<rparr>)
      Map.empty
      (submit_code \<lparr>chat = (), messages = [], current_code = lit ''raise SystemExit'', page = [], host = ()\<rparr>)
    = (Raised [] (Py_exception False (lit ''SystemExit'') (Inr []) (lit ''Traceback'')),
       submit_code \<lparr>chat = (), messages = [], current_code = lit ''raise SystemExit'', page = [], host = ()\<rparr>)
   \<and> fst (run_code (\<lambda>c (ns :: pystr \<rightharpoonup> unit) s.
       (Raised [] (Py_exception False (lit ''SystemExit'') (Inr []) (lit ''Traceback'')), s))
        (lit ''raise SystemExit'')
        (submit_code \<lparr>chat = (), messages = [], current_code = lit ''raise SystemExit'', page = [], host = ()\<rparr>))
     = Escaped (Py_exception False (lit ''SystemExit'') (Inr []) (lit ''Traceback''))
   \<and> run_button_handler (\<lambda>c (ns :: pystr \<rightharpoonup> unit) s.
       (Raised [] (Py_exception False (lit ''SystemExit'') (Inr []) (lit ''Traceback'')), s))
        (\<lambda>c p. (Inr (lit ''ok''), c)) (\<lambda>c. True)
        \<lparr>chat = (), messages = [], current_code = lit ''raise SystemExit'', page = [], host = ()\<rparr>
     = (submit_code \<lparr>chat = (), messages = [], current_code = lit ''raise SystemExit'', page = [], host = ()\<rparr>,
        Uncaught (Py_exception False (lit ''SystemExit'') (Inr []) (lit ''Traceback'')))"
  using only_exceptions_converted [of
       "\<lambda>c (ns :: pystr \<rightharpoonup> unit) s.
       (Raised [] (Py_exception False (lit ''SystemExit'') (Inr []) (lit ''Traceback'')), s)"
       "\<lparr>chat = (), messages = [], current_code = lit ''raise SystemExit'', page = [], host = ()\<rparr>"
       "[]"
       "Py_exception False (lit ''SystemExit'') (Inr []) (lit ''Traceback'')"
       "submit_code \<lparr>chat = (), messages = [], current_code = lit ''raise SystemExit'', page = [], host = ()\<rparr>"
       "\<lambda>c p. (Inr (lit ''ok''), c)" "\<lambda>c. True"]
  by simp

section \<open>Properties of the handlers\<close>


lemma chat_input_send_messages:
  "messages (fst (chat_input_send send_message prompt st)) =
     messages st @ (case fst (send_message (chat st) prompt) of
                      Inr response_text \<Rightarrow> [\<lparr>role = lit ''assistant'', content = response_text\<rparr>]
                    | Inl e \<Rightarrow> [])"
  by (auto simp: chat_input_send_def split: prod.splits sum.splits)

lemma chat_input_send_chat:
  "chat (fst (chat_input_send send_message prompt st)) = snd (send_message (chat st) prompt)"
  by (auto simp: chat_input_send_def split: prod.splits sum.splits)


text \<open>
  C2. When the call to the remote service raises, the \<open>try\<close> statement around it leaves
  the transcript as it was when the call began: the same turns, the same length, no
  assistant turn. This holds for the chat input handler whenever the service raises on
  the prompt, and for the handler of the run button whenever it raises on the evaluation
  prompt. An \<open>Exception\<close> is shown in an error box; any other error, and what the \<open>str\<close> of
  an \<open>Exception\<close> raises, leaves the handler uncaught. After a failed free-text send the
  transcript is the old one with the user turn that was appended before the call.
\<close>

theorem failed_send_leaves_transcript:
  "(fst (send_message (chat st) prompt) = Inl e1 \<longrightarrow>
       messages (fst (chat_input_send send_message prompt st)) = messages st
     \<and> length (messages (fst (chat_input_send send_message prompt st))) = length (messages st)
     \<and> page (fst (chat_input_send send_message prompt st)) =
         page st @
         (if exc_is_exception e1
            then (case exc_str e1 of
                    Inr message \<Rightarrow>
                      [Error_box ([128680] @ lit '' Error communicating with AI: '' @ message)]
                  | Inl e' \<Rightarrow> [])
          else [])
     \<and> snd (chat_input_send send_message prompt st) =
         (if exc_is_exception e1
            then (case exc_str e1 of Inr message \<Rightarrow> Continue | Inl e' \<Rightarrow> Uncaught e')
          else Uncaught e1)
     \<and> messages (fst (chat_input_handler send_message (Some prompt) st)) =
         (if prompt = [] then messages st
          else messages st @ [\<lparr>role = lit ''user'', content = prompt\<rparr>]))
   \<and> (fst (send_message (chat st) (ai_prompt r)) = Inl e2 \<longrightarrow>
       messages (fst (run_button_send send_message truthy r st)) = messages st
     \<and> length (messages (fst (run_button_send send_message truthy r st))) = length (messages st)
     \<and> page (fst (run_button_send send_message truthy r st)) =
         page st @
         (if truthy (chat st) then
            (if exc_is_exception e2
               then (case exc_str e2 of
                       Inr message \<Rightarrow>
                         [Error_box ([128680] @ lit '' Error communicating with AI: '' @
                                     message @ lit ''\<newline>'' @ exc_trace e2)]
                     | Inl e' \<Rightarrow> [])
             else [])
          else [Error_box (lit ''Chat session not initialized.'')])
     \<and> snd (run_button_send send_message truthy r st) =
         (if truthy (chat st) then
            (if exc_is_exception e2
               then (case exc_str e2 of Inr message \<Rightarrow> Continue | Inl e' \<Rightarrow> Uncaught e')
             else Uncaught e2)
          else Continue))"
proof (intro conjI impI)
  assume h: "fst (send_message (chat st) prompt) = Inl e1"
  then obtain c1 where s1: "send_message (chat st) prompt = (Inl e1, c1)"
    by (cases "send_message (chat st) prompt") simp
  have a: "chat_input_send send_message prompt st =
             (if exc_is_exception e1
                then (case exc_str e1 of
                        Inr message \<Rightarrow>
                          (st\<lparr>chat := c1,
                              page := page st @
                                [Error_box ([128680] @ lit '' Error communicating with AI: '' @ message)]\<rparr>,
                           Continue)
                      | Inl e' \<Rightarrow> (st\<lparr>chat := c1\<rparr>, Uncaught e'))
              else (st\<lparr>chat := c1\<rparr>, Uncaught e1))"
    using s1 by (simp add: chat_input_send_def)
  show "messages (fst (chat_input_send send_message prompt st)) = messages st"
    unfolding a by (simp split: sum.splits)
  then show "length (messages (fst (chat_input_send send_message prompt st))) = length (messages st)"
    by simp
  show "page (fst (chat_input_send send_message prompt st)) =
         page st @
         (if exc_is_exception e1
            then (case exc_str e1 of
                    Inr message \<Rightarrow>
                      [Error_box ([128680] @ lit '' Error communicating with AI: '' @ message)]
                  | Inl e' \<Rightarrow> [])
          else [])"
    unfolding a by (simp split: sum.splits)
  show "snd (chat_input_send send_message prompt st) =
         (if exc_is_exception e1
            then (case exc_str e1 of Inr message \<Rightarrow> Continue | Inl e' \<Rightarrow> Uncaught e')
          else Uncaught e1)"
    unfolding a by (simp split: sum.splits)
  show "messages (fst (chat_input_handler send_message (Some prompt) st)) =
         (if prompt = [] then messages st
          else messages st @ [\<lparr>role = lit ''user'', content = prompt\<rparr>])"
    using h by (simp add: chat_input_handler_def chat_input_send_messages)
next
  assume "fst (send_message (chat st) (ai_prompt r)) = Inl e2"
  then obtain c2 where s2: "send_message (chat st) (ai_prompt r) = (Inl e2, c2)"
    by (cases "send_message (chat st) (ai_prompt r)") simp
  have b: "run_button_send send_message truthy r st =
             (if truthy (chat st) then
                (if exc_is_exception e2
                   then (case exc_str e2 of
                           Inr message \<Rightarrow>
                             (st\<lparr>chat := c2,
                                 page := page st @
                                   [Error_box ([128680] @ lit '' Error communicating with AI: '' @
                                      message @ lit ''\<newline>'' @ exc_trace e2)]\<rparr>,
                              Continue)
                         | Inl e' \<Rightarrow> (st\<lparr>chat := c2\<rparr>, Uncaught e'))
                 else (st\<lparr>chat := c2\<rparr>, Uncaught e2))
              else (st\<lparr>page := page st @ [Error_box (lit ''Chat session not initialized.'')]\<rparr>,
                    Continue))"
    using s2 by (simp add: run_button_send_def)
  show "messages (fst (run_button_send send_message truthy r st)) = messages st"
    unfolding b by (simp split: sum.splits)
  then show "length (messages (fst (run_button_send send_message truthy r st))) = length (messages st)"
    by simp
  show "page (fst (run_button_send send_message truthy r st)) =
         page st @
         (if truthy (chat st) then
            (if exc_is_exception e2
               then (case exc_str e2 of
                       Inr message \<Rightarrow>
                         [Error_box ([128680] @ lit '' Error communicating with AI: '' @
                                     message @ lit ''\<newline>'' @ exc_trace e2)]
                     | Inl e' \<Rightarrow> [])
             else [])
          else [Error_box (lit ''Chat session not initialized.'')])"
    unfolding b by (simp split: sum.splits)
  show "snd (run_button_send send_message truthy r st) =
         (if truthy (chat st) then
            (if exc_is_exception e2
               then (case exc_str e2 of Inr message \<Rightarrow> Continue | Inl e' \<Rightarrow> Uncaught e')
             else Uncaught e2)
          else Continue)"
    unfolding b by (simp split: sum.splits)
qed

text \<open>
  A service that answers 503 to \<open>next\<close> and replies to everything else, for the chat
  input; one that answers 503 to everything, for the run button.
\<close>

theorem failed_send_leaves_transcript_witness:
  "fst ((\<lambda>c p. if p = lit ''next''
                 then (Inl (Py_exception True (lit ''ServiceUnavailable'') (Inr (lit ''503'')) (lit ''Traceback'')), c)
                 else (Inr (lit ''ok''), c))
         (chat \<lparr>chat = (), messages = [\<lparr>role = lit ''assistant'', content = lit ''Hi''\<rparr>],
                current_code = [], page = [], host = ()\<rparr>) (lit ''next''))
     = Inl (Py_exception True (lit ''ServiceUnavailable'') (Inr (lit ''503'')) (lit ''Traceback''))
   \<and> messages (fst (chat_input_send
        (\<lambda>c p. if p = lit ''next''
                 then (Inl (Py_exception True (lit ''ServiceUnavailable'') (Inr (lit ''503'')) (lit ''Traceback'')), c)
                 else (Inr (lit ''ok''), c))
        (lit ''next'')
        \<lparr>chat = (), messages = [\<lparr>role = lit ''assistant'', content = lit ''Hi''\<rparr>],
          current_code = [], page = [], host = ()\<rparr>))
     = [\<lparr>role = lit ''assistant'', content = lit ''Hi''\<rparr>]
   \<and> page (fst (chat_input_send
        (\<lambda>c p. if p = lit ''next''
                 then (Inl (Py_exception True (lit ''ServiceUnavailable'') (Inr (lit ''503'')) (lit ''Traceback'')), c)
                 else (Inr (lit ''ok''), c))
        (lit ''next'')
        \<lparr>chat = (), messages = [\<lparr>role = lit ''assistant'', content = lit ''Hi''\<rparr>],
          current_code = [], page = [], host = ()\<rparr>))
     = [Error_box ([128680] @ lit '' Error communicating with AI: 503'')]
   \<and> fst ((\<lambda>c p. (Inl (Py_exception True (lit ''ServiceUnavailable'') (Inr (lit ''503'')) (lit ''Traceback'')), c))
         (chat \<lparr>chat = (), messages = [\<lparr>role = lit ''assistant'', content = lit ''Hi''\<rparr>],
                current_code = [], page = [], host = ()\<rparr>)
         (ai_prompt \<lparr>execution_result = lit ''x'', error_occurred = False, error_details = [],
                     result_display_content = lit ''x'', error_short = None\<rparr>))
     = Inl (Py_exception True (lit ''ServiceUnavailable'') (Inr (lit ''503'')) (lit ''Traceback''))
   \<and> messages (fst (run_button_send
        (\<lambda>c p. (Inl (Py_exception True (lit ''ServiceUnavailable'') (Inr (lit ''503'')) (lit ''Traceback'')), c))
        (\<lambda>c. True)
        \<lparr>execution_result = lit ''x'', error_occurred = False, error_details = [],
          result_display_content = lit ''x'', error_short = None\<rparr>
        \<lparr>chat = (), messages = [\<lparr>role = lit ''assistant'', content = lit ''Hi''\<rparr>],
          current_code = [], page = [], host = ()\<rparr>))
     = [\<lparr>role = lit ''assistant'', content = lit ''Hi''\<rparr>]"
proof -
  let ?E = "Py_exception True (lit ''ServiceUnavailable'') (Inr (lit ''503'')) (lit ''Traceback'')"
  let ?S = "\<lparr>chat = (), messages = [\<lparr>role = lit ''assistant'', content = lit ''Hi''\<rparr>],
             current_code = [], page = [], host = ()\<rparr>"
  let ?R = "\<lparr>execution_result = lit ''x'', error_occurred = False, error_details = [],
             result_display_content = lit ''x'', error_short = None\<rparr>"
  let ?f = "\<lambda>(c::unit) p. if p = lit ''next'' then (Inl ?E, c) else (Inr (lit ''ok''), c)"
  let ?g = "\<lambda>(c::unit) (p::pystr). (Inl ?E :: py_exception + pystr, c)"
  have h1: "fst (?f (chat ?S) (lit ''next'')) = Inl ?E" by simp
  have h2: "fst (?g (chat ?S) (ai_prompt ?R)) = Inl ?E" by simp
  note a = failed_send_leaves_transcript [of ?f ?S "lit ''next''" ?E ?R ?E "\<lambda>c. True",
             THEN conjunct1, THEN mp, OF h1]
  note b = failed_send_leaves_transcript [of ?g ?S "lit ''next''" ?E ?R ?E "\<lambda>c. True",
             THEN conjunct2, THEN mp, OF h2]
  show ?thesis using h1 h2 a b by (simp add: lit_def)
qed

text \<open>
  The turns that a sequence of sends appends, and how many they are.
\<close>

lemma replied_Cons:
  "replied send_message (prompt # rest) c =
     (case fst (send_message c prompt) of Inr t \<Rightarrow> True | Inl e \<Rightarrow> False) #
     replied send_message rest (snd (send_message c prompt))"
  by (simp split: prod.splits sum.splits)

lemma exchanged_Cons:
  "exchanged send_message (prompt # rest) c =
     \<lparr>role = lit ''user'', content = prompt\<rparr> #
     (case fst (send_message c prompt) of
        Inr t \<Rightarrow> [\<lparr>role = lit ''assistant'', content = t\<rparr>]
      | Inl e \<Rightarrow> []) @
     exchanged send_message rest (snd (send_message c prompt))"
  by (simp split: prod.splits sum.splits)

lemma free_text_sends_messages:
  "[] \<notin> set prompts \<Longrightarrow>
   messages (free_text_sends send_message prompts st) =
     messages st @ exchanged send_message prompts (chat st)"
proof (induction prompts arbitrary: st)
  case Nil
  show ?case by simp
next
  case (Cons prompt rest)
  let ?st = "fst (chat_input_handler send_message (Some prompt) st)"
  from Cons.prems have ne: "prompt \<noteq> []" and rest: "[] \<notin> set rest" by auto
  have ch: "chat ?st = snd (send_message (chat st) prompt)"
    using ne by (simp add: chat_input_handler_def chat_input_send_chat)
  have ms: "messages ?st =
              messages st @ \<lparr>role = lit ''user'', content = prompt\<rparr> #
              (case fst (send_message (chat st) prompt) of
                 Inr t \<Rightarrow> [\<lparr>role = lit ''assistant'', content = t\<rparr>]
               | Inl e \<Rightarrow> [])"
    using ne by (simp add: chat_input_handler_def chat_input_send_messages)
  have "messages (free_text_sends send_message (prompt # rest) st) =
          messages ?st @ exchanged send_message rest (chat ?st)"
    using Cons.IH [OF rest, of ?st] by simp
  then show ?case unfolding ch ms exchanged_Cons by simp
qed

lemma exchanged_length:
  "length (exchanged send_message prompts c) =
     2 * length (filter (\<lambda>ok. ok) (replied send_message prompts c))
     + length (filter (\<lambda>ok. \<not> ok) (replied send_message prompts c))
   \<and> length (replied send_message prompts c) = length prompts"
proof (induction prompts arbitrary: c)
  case Nil
  show ?case by simp
next
  case (Cons prompt rest)
  show ?case
    using Cons.IH [of "snd (send_message c prompt)"]
    unfolding replied_Cons exchanged_Cons
    by (cases "fst (send_message c prompt)") simp_all
qed

text \<open>
  C3. Over any sequence of non-empty free-text submissions, the transcript grows by the
  user turn of each prompt, followed by an assistant turn with the reply where the service
  replied and by nothing where it raised: two turns for each reply, one for each failure.
\<close>

theorem transcript_growth:
  assumes "[] \<notin> set prompts"
  shows "messages (free_text_sends send_message prompts st) =
           messages st @ exchanged send_message prompts (chat st)
       \<and> length (messages (free_text_sends send_message prompts st)) =
           length (messages st)
           + 2 * length (filter (\<lambda>ok. ok) (replied send_message prompts (chat st)))
           + length (filter (\<lambda>ok. \<not> ok) (replied send_message prompts (chat st)))
       \<and> length (replied send_message prompts (chat st)) = length prompts"
  using free_text_sends_messages [OF assms, of send_message st]
    exchanged_length [of send_message prompts "chat st"]
  by simp

text \<open>Two submissions to a service that replies to the first and fails on the second.\<close>

theorem transcript_growth_witness:
  "[] \<notin> set [lit ''next'', lit ''why'']
   \<and> messages (free_text_sends
        (\<lambda>c p. (if c = (0::nat) then Inr (lit ''ok'')
                 else Inl (Py_exception True (lit ''ServiceUnavailable'') (Inr (lit ''503''))
                             (lit ''Traceback'')), Suc c))
        [lit ''next'', lit ''why'']
        \<lparr>chat = 0, messages = [\<lparr>role = lit ''assistant'', content = lit ''Hi''\<rparr>],
          current_code = [], page = [], host = ()\<rparr>)
     = [\<lparr>role = lit ''assistant'', content = lit ''Hi''\<rparr>,
        \<lparr>role = lit ''user'', content = lit ''next''\<rparr>,
        \<lparr>role = lit ''assistant'', content = lit ''ok''\<rparr>,
        \<lparr>role = lit ''user'', content = lit ''why''\<rparr>]"
  using transcript_growth [of "[lit ''next'', lit ''why'']"
        "\<lambda>c p. (if c = (0::nat) then Inr (lit ''ok'')
                 else Inl (Py_exception True (lit ''ServiceUnavailable'') (Inr (lit ''503''))
                             (lit ''Traceback'')), Suc c)"
        "\<lparr>chat = 0, messages = [\<lparr>role = lit ''assistant'', content = lit ''Hi''\<rparr>],
          current_code = [], page = [], host = ()\<rparr>"]
  by (simp add: lit_def)







end
